theory Spec2Isabelle
  imports Main "HOL-Library.Char_ord" "HOL-Library.List_Lexorder"
begin

section \<open>MCP server integration of the Deep Agents CLI (mcp_tools.py)\<close>

text \<open>
  A shallow embedding of \<^verbatim>\<open>libs/cli/deepagents_cli/mcp_tools.py\<close>.

  Python values that come out of \<^verbatim>\<open>json.loads\<close> are the datatype \<open>json\<close>. A Python
  \<^verbatim>\<open>dict\<close> is an association list in insertion order (a dict never holds a key twice,
  so the lists of interest have distinct keys; \<open>map_of\<close> is \<^verbatim>\<open>dict.get\<close>). A Python
  \<^verbatim>\<open>str\<close> is a \<open>string\<close>, one \<open>char\<close> per code point (code points below 256).
  An exception object is a value \<open>Exn type message\<close> (\<^verbatim>\<open>type(e).__name__\<close> and
  \<^verbatim>\<open>str(e)\<close>). A function that may raise returns a sum, \<open>Inl\<close> being the raise.
\<close>

subsection \<open>Values\<close>

datatype json =
    JNull
  | JBool bool
  | JInt int
  | JFloat int int
  | JStr string
  | JArr "json list"
  | JObj "(string \<times> json) list"

type_synonym dict = "(string \<times> json) list"

datatype exn = Exn (exn_type: string) (exn_msg: string)

text \<open>
  What \<^verbatim>\<open>except Exception\<close> catches and what it does not. The synchronous operations
  (reading and parsing the file, \<^verbatim>\<open>shlex.split\<close>, the module's own \<^verbatim>\<open>ValueError\<close>s)
  raise instances of \<^verbatim>\<open>Exception\<close>, and return \<open>exn + 'a\<close>. An awaited operation can
  also raise an exception whose class does not derive from \<^verbatim>\<open>Exception\<close>
  (\<^verbatim>\<open>asyncio.CancelledError\<close> derives from \<^verbatim>\<open>BaseException\<close> only); it returns
  \<open>raised + 'a\<close>, where \<open>Exception err\<close> is an instance of \<^verbatim>\<open>Exception\<close> and
  \<open>NonException err\<close> is not.
\<close>

datatype raised = Exception exn | NonException exn

text \<open>\<^verbatim>\<open>isinstance(v, dict)\<close>\<close>

fun is_dict :: "json \<Rightarrow> bool" where
  "is_dict (JObj d) = True"
| "is_dict v = False"

text \<open>\<^verbatim>\<open>key in cfg\<close>\<close>

definition has_key :: "string \<Rightarrow> dict \<Rightarrow> bool" where
  "has_key k d = (map_of d k \<noteq> None)"

text \<open>The apostrophe, for the messages that quote a name.\<close>

definition apos :: string where
  "apos = [CHR 0x27]"

subsection \<open>extract_mcp_servers\<close>

definition meta_keys :: "string list" where
  "meta_keys = [''$schema'', ''version'', ''inputs'', ''env'']"

definition looks_like_server :: "dict \<Rightarrow> bool" where
  "looks_like_server cfg = list_ex (\<lambda>key. has_key key cfg) [''command'', ''url'', ''type'']"

text \<open>
  \<^verbatim>\<open>candidate = {k: v for k, v in data.items() if isinstance(k, str) and k not in meta_keys}\<close>;
  the keys of a parsed JSON object are always strings.
\<close>

definition candidate_of :: "dict \<Rightarrow> dict" where
  "candidate_of data = filter (\<lambda>(k, v). k \<notin> set meta_keys) data"

definition extract_mcp_servers :: "json \<Rightarrow> dict" where
  "extract_mcp_servers data =
     (case data of
        JObj d \<Rightarrow>
          (case map_of d ''mcpServers'' of
             Some (JObj servers) \<Rightarrow> servers
           | _ \<Rightarrow>
              (case map_of d ''servers'' of
                 Some (JObj servers) \<Rightarrow> servers
               | _ \<Rightarrow>
                  (let candidate = candidate_of d in
                   if candidate = [] \<or> \<not> list_all (\<lambda>(k, v). is_dict v) candidate then []
                   else if list_all (\<lambda>(k, v). case v of JObj cfg \<Rightarrow> looks_like_server cfg | _ \<Rightarrow> True)
                             (filter (\<lambda>(k, v). is_dict v) candidate)
                   then candidate
                   else [])))
      | _ \<Rightarrow> [])"

text \<open>The words of the specification, for comparison: the field holds a mapping.\<close>

definition holds_mapping :: "dict \<Rightarrow> string \<Rightarrow> bool" where
  "holds_mapping d k = (case map_of d k of Some (JObj s) \<Rightarrow> True | _ \<Rightarrow> False)"

definition mapping_at :: "dict \<Rightarrow> string \<Rightarrow> dict" where
  "mapping_at d k = (case map_of d k of Some (JObj s) \<Rightarrow> s | _ \<Rightarrow> [])"

text \<open>
  The candidates: the top-level entries minus the metadata keys \<^verbatim>\<open>$schema\<close>,
  \<^verbatim>\<open>version\<close>, \<^verbatim>\<open>inputs\<close> and \<^verbatim>\<open>env\<close>.
\<close>

fun spec_candidates :: "dict \<Rightarrow> dict" where
  "spec_candidates [] = []"
| "spec_candidates ((k, v) # rest) =
     (if k = ''$schema'' \<or> k = ''version'' \<or> k = ''inputs'' \<or> k = ''env''
      then spec_candidates rest
      else (k, v) # spec_candidates rest)"

text \<open>
  Every candidate value is a mapping and contains a \<^verbatim>\<open>command\<close>, \<^verbatim>\<open>url\<close> or \<^verbatim>\<open>type\<close> key.
\<close>

definition candidate_ok :: "json \<Rightarrow> bool" where
  "candidate_ok v =
     (case v of
        JObj cfg \<Rightarrow> list_ex (\<lambda>(k, x). k = ''command'' \<or> k = ''url'' \<or> k = ''type'') cfg
      | _ \<Rightarrow> False)"

definition spec_extract :: "json \<Rightarrow> dict" where
  "spec_extract data =
     (case data of
        JObj d \<Rightarrow>
          if holds_mapping d ''mcpServers'' then mapping_at d ''mcpServers''
          else if holds_mapping d ''servers'' then mapping_at d ''servers''
          else if spec_candidates d \<noteq> [] \<and>
                  list_all (\<lambda>(k, v). candidate_ok v) (spec_candidates d)
          then spec_candidates d
          else []
      | _ \<Rightarrow> [])"

subsection \<open>The MCP SDK's values\<close>

text \<open>
  A content block of a \<^verbatim>\<open>CallToolResult\<close>, as \<open>format_call_tool_result\<close> probes it:
  \<open>b_type\<close> is \<^verbatim>\<open>getattr(block, "type", None)\<close>, \<open>b_text\<close> is the \<^verbatim>\<open>str\<close> of
  its \<^verbatim>\<open>text\<close> attribute (None when it has none), \<open>b_model_dump_json\<close> is what
  \<^verbatim>\<open>block.model_dump_json()\<close> returns (None when the block has no such method) and
  \<open>b_repr\<close> is \<^verbatim>\<open>repr(block)\<close>.
\<close>

record block =
  b_type :: "string option"
  b_text :: "string option"
  b_model_dump_json :: "string option"
  b_repr :: string

record call_tool_result =
  isError :: bool
  content :: "block list option"
  structuredContent :: "json option"

record mcp_tool =
  mt_name :: string
  mt_description :: "string option"
  mt_title :: "string option"
  mt_inputSchema :: "dict option"

record stdio_params =
  sp_command :: string
  sp_args :: "string list"
  sp_env :: "(string \<times> string) list option"
  sp_cwd :: string

text \<open>
  What a context manager yields when it is entered: the read/write endpoints of a
  transport, or the session object. The environment chooses the handles.
\<close>

type_synonym handle = nat

text \<open>
  The context managers the module builds, each with the parameters of the call that
  builds it: \<^verbatim>\<open>stdio_client(params)\<close>, \<^verbatim>\<open>sse_client(url, headers=headers_typed)\<close>,
  \<^verbatim>\<open>streamable_http_client(url)\<close>, \<^verbatim>\<open>ClientSession(read, write)\<close>.
\<close>

datatype cm =
    stdio_client stdio_params
  | sse_client string "dict option"
  | streamable_http_client string
  | ClientSession handle

type_synonym path = "string list"

text \<open>
  Everything outside the module: the file system, the standard library's JSON codec and
  \<^verbatim>\<open>str\<close>, and the MCP SDK. \<open>str_of\<close> is \<^verbatim>\<open>str(v)\<close> for a value that is not a
  string; \<open>json_dumps\<close> is \<^verbatim>\<open>json.dumps(v, indent=2, ensure_ascii=False)\<close>;
  \<open>aenter\<close> is \<^verbatim>\<open>__aenter__\<close> of a context manager; \<open>aexit\<close> is its
  \<^verbatim>\<open>__aexit__\<close>, given the exception that is propagating (None when there is none)
  and answering with the exception that propagates afterwards: the same one when it
  returns a false value, None when it returns a true value (it swallows the exception),
  another one when it raises. \<open>call_tool\<close> takes the name as the value the adapter
  passes. Each answer is a function of the parameters of the call: what the world answers
  does not depend on the calls made before.
\<close>

record env =
  str_of :: "json \<Rightarrow> string"
  json_dumps :: "json \<Rightarrow> string"
  resolve :: "path \<Rightarrow> path"
  path_exists :: "path \<Rightarrow> bool"
  read_text :: "path \<Rightarrow> exn + string"
  json_loads :: "string \<Rightarrow> exn + json"
  aenter :: "cm \<Rightarrow> raised + handle"
  aexit :: "cm \<Rightarrow> raised option \<Rightarrow> raised option"
  initialize :: "handle \<Rightarrow> raised option"
  list_tools :: "handle \<Rightarrow> raised + mcp_tool list"
  call_tool :: "handle \<Rightarrow> json \<Rightarrow> dict \<Rightarrow> raised + call_tool_result"

subsection \<open>find_mcp_config_path\<close>

text \<open>A path is the list of its components below the root; \<^verbatim>\<open>str(path)\<close>:\<close>

definition path_str :: "path \<Rightarrow> string" where
  "path_str p = (if p = [] then ''/'' else concat (map (\<lambda>c. ''/'' @ c) p))"

text \<open>\<^verbatim>\<open>start.parents\<close>: the proper ancestors, nearest first.\<close>

definition parents :: "path \<Rightarrow> path list" where
  "parents p = map (\<lambda>n. take n p) (rev [0..<length p])"

definition find_mcp_config_path :: "env \<Rightarrow> path \<Rightarrow> path option" where
  "find_mcp_config_path e start_path =
     (let start = resolve e start_path in
      map_option (\<lambda>candidate_dir. candidate_dir @ [''.mcp.json''])
        (find (\<lambda>candidate_dir. path_exists e (candidate_dir @ [''.mcp.json'']))
           (start # parents start)))"

subsection \<open>format_call_tool_result\<close>

text \<open>\<^verbatim>\<open>sep.join(xs)\<close>\<close>

fun join :: "string \<Rightarrow> string list \<Rightarrow> string" where
  "join sep [] = []"
| "join sep [x] = x"
| "join sep (x # y # ys) = x @ sep @ join sep (y # ys)"

text \<open>The loop over the content blocks, appending to \<open>parts\<close>.\<close>

fun collect_parts :: "block list \<Rightarrow> string list \<Rightarrow> string list" where
  "collect_parts [] parts = parts"
| "collect_parts (b # bs) parts =
     (if b_type b = Some ''text''
      then collect_parts bs (parts @ [case b_text b of Some t \<Rightarrow> t | None \<Rightarrow> []])
      else (case b_model_dump_json b of
              Some js \<Rightarrow> collect_parts bs (parts @ [js])
            | None \<Rightarrow> collect_parts bs (parts @ [b_repr b])))"

definition format_call_tool_result :: "env \<Rightarrow> call_tool_result \<Rightarrow> string" where
  "format_call_tool_result e result =
     (case structuredContent result of
        Some structured \<Rightarrow> json_dumps e structured
      | None \<Rightarrow>
         (case content result of
            None \<Rightarrow> []
          | Some bs \<Rightarrow>
              if bs = [] then []
              else join [CHR 0x0A] (filter (\<lambda>p. p \<noteq> []) (collect_parts bs []))))"

text \<open>The words of the specification: what one block contributes.\<close>

definition block_text :: "block \<Rightarrow> string" where
  "block_text b =
     (if b_type b = Some ''text'' then (case b_text b of Some t \<Rightarrow> t | None \<Rightarrow> [])
      else if b_model_dump_json b \<noteq> None then the (b_model_dump_json b)
      else b_repr b)"

subsection \<open>shlex.split\<close>

text \<open>
  The standard library's \<^verbatim>\<open>shlex.split(s)\<close>: a \<^verbatim>\<open>shlex\<close> in POSIX mode with
  \<^verbatim>\<open>whitespace_split = True\<close> and no commenters, read to its end. \<open>read_tokens\<close> is
  \<^verbatim>\<open>read_token\<close> called until it returns the end-of-file token; its arguments are
  \<^verbatim>\<open>self.state\<close>, \<^verbatim>\<open>escapedstate\<close>, \<^verbatim>\<open>quoted\<close>, \<^verbatim>\<open>self.token\<close> and the rest of
  the input. The states are \<^verbatim>\<open>' '\<close> (\<open>Ws\<close>), \<^verbatim>\<open>'a'\<close> (\<open>Word\<close>), a quote character
  and the escape character. A call of \<^verbatim>\<open>read_token\<close> that emits a token ends there,
  and the next call starts with \<^verbatim>\<open>quoted = False\<close> and \<^verbatim>\<open>escapedstate = ' '\<close>.
\<close>

datatype lex_state = Ws | Word | Quote char | Escape char

definition lex_whitespace :: "char list" where
  "lex_whitespace = [CHR '' '', CHR 0x09, CHR 0x0D, CHR 0x0A]"

definition lex_quotes :: "char list" where
  "lex_quotes = [CHR 0x27, CHR 0x22]"

definition lex_escape :: "char list" where
  "lex_escape = [CHR 0x5C]"

definition lex_escapedquotes :: "char list" where
  "lex_escapedquotes = [CHR 0x22]"

definition emit :: "string \<Rightarrow> exn + string list \<Rightarrow> exn + string list" where
  "emit tok rest = (case rest of Inl err \<Rightarrow> Inl err | Inr toks \<Rightarrow> Inr (tok # toks))"

fun read_tokens :: "lex_state \<Rightarrow> lex_state \<Rightarrow> bool \<Rightarrow> string \<Rightarrow> string \<Rightarrow> exn + string list" where
  "read_tokens st escapedstate quoted tok [] =
     (case st of
        Quote q \<Rightarrow> Inl (Exn ''ValueError'' ''No closing quotation'')
      | Escape x \<Rightarrow> Inl (Exn ''ValueError'' ''No escaped character'')
      | _ \<Rightarrow> Inr (if tok = [] \<and> \<not> quoted then [] else [tok]))"
| "read_tokens st escapedstate quoted tok (c # cs) =
     (case st of
        Ws \<Rightarrow>
          if c \<in> set lex_whitespace then
            (if tok \<noteq> [] \<or> quoted then emit tok (read_tokens Ws Ws False [] cs)
             else read_tokens Ws escapedstate quoted tok cs)
          else if c \<in> set lex_escape then read_tokens (Escape c) Word quoted tok cs
          else if c \<in> set lex_quotes then read_tokens (Quote c) escapedstate quoted tok cs
          else read_tokens Word escapedstate quoted [c] cs
      | Quote q \<Rightarrow>
          if c = q then read_tokens Word escapedstate True tok cs
          else if c \<in> set lex_escape \<and> q \<in> set lex_escapedquotes
          then read_tokens (Escape c) (Quote q) True tok cs
          else read_tokens (Quote q) escapedstate True (tok @ [c]) cs
      | Escape x \<Rightarrow>
          (case escapedstate of
             Quote q \<Rightarrow>
               if c \<noteq> x \<and> c \<noteq> q
               then read_tokens escapedstate escapedstate quoted (tok @ [x] @ [c]) cs
               else read_tokens escapedstate escapedstate quoted (tok @ [c]) cs
           | _ \<Rightarrow> read_tokens escapedstate escapedstate quoted (tok @ [c]) cs)
      | Word \<Rightarrow>
          if c \<in> set lex_whitespace then
            (if tok \<noteq> [] \<or> quoted then emit tok (read_tokens Ws Ws False [] cs)
             else read_tokens Ws escapedstate quoted tok cs)
          else if c \<in> set lex_quotes then read_tokens (Quote c) escapedstate quoted tok cs
          else if c \<in> set lex_escape then read_tokens (Escape c) Word quoted tok cs
          else read_tokens Word escapedstate quoted (tok @ [c]) cs)"

definition shlex_split :: "string \<Rightarrow> exn + string list" where
  "shlex_split s = read_tokens Ws Ws False [] s"

subsection \<open>normalize_stdio_command\<close>

text \<open>\<^verbatim>\<open>ch.isspace()\<close> for a code point below 256.\<close>

definition isspace :: "char \<Rightarrow> bool" where
  "isspace ch = ((of_char ch :: nat) \<in> set [9, 10, 11, 12, 13, 28, 29, 30, 31, 32, 133, 160])"

text \<open>\<^verbatim>\<open>str(a)\<close>\<close>

definition py_str :: "env \<Rightarrow> json \<Rightarrow> string" where
  "py_str e a = (case a of JStr s \<Rightarrow> s | _ \<Rightarrow> str_of e a)"

text \<open>
  The arguments are \<^verbatim>\<open>cfg.get("command")\<close> and \<^verbatim>\<open>cfg.get("args")\<close>: None when the
  key is missing.
\<close>

definition normalize_stdio_command ::
  "env \<Rightarrow> json option \<Rightarrow> json option \<Rightarrow> exn + (string \<times> string list)" where
  "normalize_stdio_command e raw_command raw_args =
     (let command = (case raw_command of Some (JStr s) \<Rightarrow> s | _ \<Rightarrow> []);
          args0 = (case raw_args of Some (JArr xs) \<Rightarrow> xs | _ \<Rightarrow> []);
          args = map (py_str e) args0
      in if command \<noteq> [] \<and> args \<noteq> [] then Inr (command, args)
         else if command \<noteq> [] \<and> args = [] \<and> list_ex isspace command then
           (case shlex_split command of
              Inl err \<Rightarrow> Inl err
            | Inr split \<Rightarrow>
               (case split of
                  [] \<Rightarrow> Inr (command, args)
                | x # xs \<Rightarrow> Inr (x, xs)))
         else Inr (command, args))"

subsection \<open>The tool adapter\<close>

text \<open>
  A \<^verbatim>\<open>StructuredTool\<close> built by \<^verbatim>\<open>StructuredTool.from_function\<close>: its name,
  description, argument schema and metadata, and its coroutine \<^verbatim>\<open>_call_mcp_tool\<close>,
  which is the function below with the two values it captured as the defaults of its
  keyword-only parameters \<^verbatim>\<open>_session\<close> and \<^verbatim>\<open>_mcp_tool_name\<close>.
\<close>

record structured_tool =
  st_name :: string
  st_description :: string
  st_args_schema :: dict
  st_metadata :: "(string \<times> string) list"
  st_session :: handle
  st_mcp_tool_name :: string

text \<open>\<^verbatim>\<open>type(v).__name__\<close> of a parsed JSON value.\<close>

fun py_type_name :: "json \<Rightarrow> string" where
  "py_type_name JNull = ''NoneType''"
| "py_type_name (JBool b) = ''bool''"
| "py_type_name (JInt i) = ''int''"
| "py_type_name (JFloat m x) = ''float''"
| "py_type_name (JStr s) = ''str''"
| "py_type_name (JArr xs) = ''list''"
| "py_type_name (JObj d) = ''dict''"

text \<open>
  \<^verbatim>\<open>async def _call_mcp_tool(*, _session=session, _mcp_tool_name=mcp_tool.name, **kwargs)\<close>
  called with the named arguments \<open>named_args\<close> (values of a tool call, so JSON values).
  Python binds a named argument \<^verbatim>\<open>_session\<close> or \<^verbatim>\<open>_mcp_tool_name\<close> to the parameter
  of that name, and collects all the others in \<^verbatim>\<open>kwargs\<close>; a parameter that is not
  given keeps its default. A JSON value bound to \<^verbatim>\<open>_session\<close> has no attribute
  \<^verbatim>\<open>call_tool\<close>.
\<close>

definition call_mcp_tool :: "env \<Rightarrow> structured_tool \<Rightarrow> dict \<Rightarrow> raised + string" where
  "call_mcp_tool e tool named_args =
     (let mcp_tool_name =
            (case map_of named_args ''_mcp_tool_name'' of
               Some v \<Rightarrow> v
             | None \<Rightarrow> JStr (st_mcp_tool_name tool));
          kwargs = filter (\<lambda>(k, v). k \<noteq> ''_session'' \<and> k \<noteq> ''_mcp_tool_name'') named_args
      in case map_of named_args ''_session'' of
           Some v \<Rightarrow>
             Inl (Exception (Exn ''AttributeError''
                    (apos @ py_type_name v @ apos @ '' object has no attribute '' @
                     apos @ ''call_tool'' @ apos)))
         | None \<Rightarrow>
            (case call_tool e (st_session tool) mcp_tool_name kwargs of
               Inl err \<Rightarrow> Inl err
             | Inr result \<Rightarrow>
                 if isError result then
                   (let msg = (if format_call_tool_result e result \<noteq> []
                               then format_call_tool_result e result
                               else ''MCP tool call failed'')
                    in Inl (Exception (Exn ''ToolException'' msg)))
                 else Inr (format_call_tool_result e result)))"

text \<open>\<^verbatim>\<open>a or b\<close> for an optional string \<open>a\<close>.\<close>

definition str_or :: "string option \<Rightarrow> string \<Rightarrow> string" where
  "str_or a b = (case a of Some s \<Rightarrow> if s \<noteq> [] then s else b | None \<Rightarrow> b)"

text \<open>
  The body of the loop over \<^verbatim>\<open>listed.tools\<close>: the tool that is appended.
  \<^verbatim>\<open>StructuredTool.from_function\<close> is given a coroutine, a name, a description and a
  schema, and builds the tool from them.
\<close>

definition make_tool :: "string \<Rightarrow> dict \<Rightarrow> handle \<Rightarrow> mcp_tool \<Rightarrow> structured_tool" where
  "make_tool server_name cfg session t =
     (let tool_name = server_name @ ''__'' @ mt_name t;
          description0 = str_or (mt_description t) (str_or (mt_title t) []);
          description = (if description0 \<noteq> []
                         then ''[MCP:'' @ server_name @ ''] '' @ description0
                         else ''[MCP:'' @ server_name @ '']'');
          input_schema = (case mt_inputSchema t of
                            Some s \<Rightarrow> if s \<noteq> [] then s
                                      else [(''type'', JStr ''object''), (''properties'', JObj [])]
                          | None \<Rightarrow> [(''type'', JStr ''object''), (''properties'', JObj [])])
      in \<lparr> st_name = tool_name,
           st_description = description,
           st_args_schema = input_schema,
           st_metadata =
             [(''source'', ''mcp''),
              (''mcp_server'', server_name),
              (''mcp_tool'', mt_name t),
              (''mcp_transport'', if has_key ''command'' cfg then ''stdio'' else ''http'')],
           st_session = session,
           st_mcp_tool_name = mt_name t \<rparr>)"

subsection \<open>open_mcp_toolset\<close>

record McpToolset =
  tools :: "structured_tool list"
  config_path :: "path option"
  errors :: "string list"

text \<open>
  The state of the loop over the servers: the two lists the loop appends to, and the
  \<^verbatim>\<open>AsyncExitStack\<close>: its exit callbacks in the order they were pushed, one per
  context manager entered through it.
\<close>

record loop_state =
  ls_tools :: "structured_tool list"
  ls_errors :: "string list"
  ls_stack :: "cm list"

text \<open>
  \<^verbatim>\<open>await stack.enter_async_context(c)\<close>: it awaits \<^verbatim>\<open>c.__aenter__()\<close> and, when
  that returns, pushes \<^verbatim>\<open>c.__aexit__\<close>; when it raises, nothing is pushed.
\<close>

definition enter_async_context ::
  "env \<Rightarrow> cm \<Rightarrow> loop_state \<Rightarrow> (raised + handle) \<times> loop_state" where
  "enter_async_context e c st =
     (case aenter e c of
        Inl err \<Rightarrow> (Inl err, st)
      | Inr h \<Rightarrow> (Inr h, st\<lparr>ls_stack := ls_stack st @ [c]\<rparr>))"

text \<open>
  \<^verbatim>\<open>AsyncExitStack.__aexit__\<close>, entered with the exception that is propagating (None
  when the block ended normally): the callbacks are popped from the end of the stack, and
  every one of them is called, each with the exception that is propagating when its turn
  comes; what a callback raises replaces that exception, and a callback that returns a
  true value clears it. The result is the exception that leaves the
  \<^verbatim>\<open>async with\<close> statement, if any, and the context managers exited, in order.
\<close>

fun run_callbacks :: "env \<Rightarrow> cm list \<Rightarrow> raised option \<Rightarrow> raised option \<times> cm list" where
  "run_callbacks e [] pending = (pending, [])"
| "run_callbacks e (c # cs) pending =
     (case run_callbacks e cs (aexit e c pending) of
        (final, exited) \<Rightarrow> (final, c # exited))"

definition aclose :: "env \<Rightarrow> cm list \<Rightarrow> raised option \<Rightarrow> raised option \<times> cm list" where
  "aclose e stack pending = run_callbacks e (rev stack) pending"

text \<open>
  The transport's context manager of one server, as lines 192 to 224 build it before
  entering it; \<open>Inl\<close> when building it raises.
\<close>

definition transport_cm :: "env \<Rightarrow> path \<Rightarrow> dict \<Rightarrow> exn + cm" where
  "transport_cm e start_path cfg =
     (let server_type = map_of cfg ''type'';
          env_dict = (case map_of cfg ''env'' of Some (JObj d) \<Rightarrow> d | _ \<Rightarrow> [])
      in if has_key ''command'' cfg then
           (case normalize_stdio_command e (map_of cfg ''command'') (map_of cfg ''args'') of
              Inl err \<Rightarrow> Inl err
            | Inr (command, args) \<Rightarrow>
                if command = [] then Inl (Exn ''ValueError''
                     (''Missing '' @ apos @ ''command'' @ apos @ '' for stdio MCP server''))
                else
                  (let env_typed = map (\<lambda>(k, v). (k, py_str e v)) env_dict
                   in Inr (stdio_client
                        \<lparr> sp_command = command,
                          sp_args = args,
                          sp_env = (if env_typed \<noteq> [] then Some env_typed else None),
                          sp_cwd = path_str start_path \<rparr>)))
         else if has_key ''url'' cfg then
           (case map_of cfg ''url'' of
              Some (JStr url) \<Rightarrow>
                if url = [] then Inl (Exn ''ValueError''
                     (''Missing '' @ apos @ ''url'' @ apos @ '' for HTTP/SSE MCP server''))
                else
                  (let headers_typed =
                         (case map_of cfg ''headers'' of
                            Some (JObj headers_dict) \<Rightarrow>
                              if headers_dict \<noteq> [] then Some headers_dict else None
                          | _ \<Rightarrow> None)
                   in if server_type = Some (JStr ''sse'')
                      then Inr (sse_client url headers_typed)
                      else Inr (streamable_http_client url))
            | _ \<Rightarrow> Inl (Exn ''ValueError''
                     (''Missing '' @ apos @ ''url'' @ apos @ '' for HTTP/SSE MCP server'')))
         else Inl (Exn ''ValueError''
                (''Expected either '' @ apos @ ''command'' @ apos @ '' or '' @ apos @ ''url'' @
                 apos @ '' in MCP server config'')))"

text \<open>
  The \<^verbatim>\<open>try\<close> block of one server: the exception it raises, if any, and the state it
  leaves.
\<close>

definition connect_server ::
  "env \<Rightarrow> path \<Rightarrow> string \<Rightarrow> dict \<Rightarrow> loop_state \<Rightarrow> raised option \<times> loop_state" where
  "connect_server e start_path server_name cfg st =
     (case transport_cm e start_path cfg of
        Inl err \<Rightarrow> (Some (Exception err), st)
      | Inr c \<Rightarrow>
         (case enter_async_context e c st of
            (Inl r, st1) \<Rightarrow> (Some r, st1)
          | (Inr read_write, st1) \<Rightarrow>
             (case enter_async_context e (ClientSession read_write) st1 of
                (Inl r, st2) \<Rightarrow> (Some r, st2)
              | (Inr session, st2) \<Rightarrow>
                 (case initialize e session of
                    Some r \<Rightarrow> (Some r, st2)
                  | None \<Rightarrow>
                     (case list_tools e session of
                        Inl r \<Rightarrow> (Some r, st2)
                      | Inr listed \<Rightarrow>
                          (None, st2\<lparr>ls_tools :=
                             ls_tools st2 @ map (make_tool server_name cfg session) listed\<rparr>))))))"

definition connect_error :: "string \<Rightarrow> exn \<Rightarrow> string" where
  "connect_error server_name err =
     ''Failed to connect MCP server '' @ apos @ server_name @ apos @ '': '' @
     exn_type err @ '': '' @ exn_msg err"

definition not_object_error :: "string \<Rightarrow> string" where
  "not_object_error server_name =
     ''MCP server '' @ apos @ server_name @ apos @ '' config must be an object.''"

text \<open>
  The loop over the sorted servers. \<^verbatim>\<open>except Exception\<close> catches what the
  \<^verbatim>\<open>try\<close> block raises when it is an instance of \<^verbatim>\<open>Exception\<close>, and the loop goes
  on with the next server; any other exception leaves the loop at once. The result is
  the exception that leaves the loop, if any, and the state then.
\<close>

fun server_loop ::
  "env \<Rightarrow> path \<Rightarrow> (string \<times> json) list \<Rightarrow> loop_state \<Rightarrow> raised option \<times> loop_state" where
  "server_loop e start_path [] st = (None, st)"
| "server_loop e start_path ((server_name, cfg_obj) # rest) st =
     (case cfg_obj of
        JObj cfg \<Rightarrow>
          (case connect_server e start_path server_name cfg st of
             (Some (Exception err), st') \<Rightarrow>
               server_loop e start_path rest
                 (st'\<lparr>ls_errors := ls_errors st' @ [connect_error server_name err]\<rparr>)
           | (Some (NonException err), st') \<Rightarrow> (Some (NonException err), st')
           | (None, st') \<Rightarrow> server_loop e start_path rest st')
      | _ \<Rightarrow>
          server_loop e start_path rest
            (st\<lparr>ls_errors := ls_errors st @ [not_object_error server_name]\<rparr>))"

text \<open>
  What \<open>open_mcp_toolset\<close> has done when it yields: the toolset it yields, and the
  exit stack that is pending while the caller's block runs (empty on the three early
  paths, which yield outside the stack's block).
\<close>

record discovery =
  toolset :: McpToolset
  exit_stack :: "cm list"

text \<open>
  What \<open>open_mcp_toolset\<close> has done when it raises instead of yielding: the exception
  that leaves it, and the context managers exited on the way out of the stack's block.
\<close>

record aborted =
  ab_raised :: raised
  ab_exited :: "cm list"

definition read_config :: "env \<Rightarrow> path \<Rightarrow> exn + json" where
  "read_config e p = (case read_text e p of Inl err \<Rightarrow> Inl err | Inr text \<Rightarrow> json_loads e text)"

definition no_servers_error :: "path \<Rightarrow> string" where
  "no_servers_error p =
     ''No MCP servers configured in '' @ path_str p @ ''. Expected a top-level '' @
     apos @ ''mcpServers'' @ apos @ ''/'' @ apos @ ''servers'' @ apos @
     '' object or a simplified server map.''"

text \<open>
  Entering \<^verbatim>\<open>async with open_mcp_toolset(start_path)\<close>: the generator runs to its
  \<^verbatim>\<open>yield\<close> (\<open>Inr\<close>), or an exception leaves it (\<open>Inl\<close>). An exception that
  leaves the loop over the servers passes through the \<^verbatim>\<open>async with\<close> of the stack,
  which unwinds; should a callback swallow it, the generator ends without a
  \<^verbatim>\<open>yield\<close>, which \<^verbatim>\<open>contextlib\<close> reports as a \<^verbatim>\<open>RuntimeError\<close>.
\<close>

definition open_mcp_toolset :: "env \<Rightarrow> path \<Rightarrow> aborted + discovery" where
  "open_mcp_toolset e start_path =
     (case find_mcp_config_path e start_path of
        None \<Rightarrow>
          Inr \<lparr> toolset = \<lparr> tools = [], config_path = None, errors = [] \<rparr>,
                exit_stack = [] \<rparr>
      | Some p \<Rightarrow>
         (case read_config e p of
            Inl err \<Rightarrow>
              Inr \<lparr> toolset = \<lparr> tools = [], config_path = Some p,
                        errors = [''Failed to read '' @ path_str p @ '': '' @ exn_type err @
                                  '': '' @ exn_msg err] \<rparr>,
                    exit_stack = [] \<rparr>
          | Inr data \<Rightarrow>
             (let servers = extract_mcp_servers data in
              if servers = [] then
                Inr \<lparr> toolset = \<lparr> tools = [], config_path = Some p,
                          errors = [no_servers_error p] \<rparr>,
                      exit_stack = [] \<rparr>
              else
                (case server_loop e start_path (sort_key fst servers)
                        \<lparr> ls_tools = [], ls_errors = [], ls_stack = [] \<rparr> of
                   (None, st) \<Rightarrow>
                     Inr \<lparr> toolset = \<lparr> tools = ls_tools st, config_path = Some p,
                               errors = ls_errors st \<rparr>,
                           exit_stack = ls_stack st \<rparr>
                 | (Some r, st) \<Rightarrow>
                     (case aclose e (ls_stack st) (Some r) of
                        (Some final, exited) \<Rightarrow>
                          Inl \<lparr> ab_raised = final, ab_exited = exited \<rparr>
                      | (None, exited) \<Rightarrow>
                          Inl \<lparr> ab_raised =
                                  Exception (Exn ''RuntimeError''
                                    (''generator didn'' @ apos @ ''t yield'')),
                                ab_exited = exited \<rparr>)))))"


subsection \<open>The words of the specification\<close>

text \<open>
  The attempt for one server: connection, handshake and discovery, in that order. Its
  result is the exception of the first step that raises, or the session and the
  capabilities listed.
\<close>

definition server_attempt ::
  "env \<Rightarrow> path \<Rightarrow> dict \<Rightarrow> raised + (handle \<times> mcp_tool list)" where
  "server_attempt e start_path cfg =
     (case transport_cm e start_path cfg of
        Inl err \<Rightarrow> Inl (Exception err)
      | Inr c \<Rightarrow>
         (case aenter e c of
            Inl r \<Rightarrow> Inl r
          | Inr read_write \<Rightarrow>
             (case aenter e (ClientSession read_write) of
                Inl r \<Rightarrow> Inl r
              | Inr session \<Rightarrow>
                 (case initialize e session of
                    Some r \<Rightarrow> Inl r
                  | None \<Rightarrow>
                     (case list_tools e session of
                        Inl r \<Rightarrow> Inl r
                      | Inr listed \<Rightarrow> Inr (session, listed))))))"

text \<open>
  The errors one server adds: one when its attempt fails with an instance of
  \<^verbatim>\<open>Exception\<close> or its configuration is not an object, none otherwise.
\<close>

definition server_errors :: "env \<Rightarrow> path \<Rightarrow> string \<times> json \<Rightarrow> string list" where
  "server_errors e start_path entry =
     (case snd entry of
        JObj cfg \<Rightarrow>
          (case server_attempt e start_path cfg of
             Inl (Exception err) \<Rightarrow> [connect_error (fst entry) err]
           | Inl (NonException err) \<Rightarrow> []
           | Inr r \<Rightarrow> [])
      | _ \<Rightarrow> [not_object_error (fst entry)])"

text \<open>The tools one server adds: one per capability when its attempt succeeds.\<close>

definition server_tools :: "env \<Rightarrow> path \<Rightarrow> string \<times> json \<Rightarrow> structured_tool list" where
  "server_tools e start_path entry =
     (case snd entry of
        JObj cfg \<Rightarrow>
          (case server_attempt e start_path cfg of
             Inl r \<Rightarrow> []
           | Inr r \<Rightarrow> map (make_tool (fst entry) cfg (fst r)) (snd r))
      | _ \<Rightarrow> [])"

text \<open>
  The transport and the session that one server's attempt opens, in order: the transport
  when entering it succeeds, the session when entering it succeeds too, whatever happens
  to the handshake and the listing afterwards.
\<close>

definition server_entered :: "env \<Rightarrow> path \<Rightarrow> string \<times> json \<Rightarrow> cm list" where
  "server_entered e start_path entry =
     (case snd entry of
        JObj cfg \<Rightarrow>
          (case transport_cm e start_path cfg of
             Inl err \<Rightarrow> []
           | Inr c \<Rightarrow>
              (case aenter e c of
                 Inl r \<Rightarrow> []
               | Inr read_write \<Rightarrow>
                  (case aenter e (ClientSession read_write) of
                     Inl r \<Rightarrow> [c]
                   | Inr session \<Rightarrow> [c, ClientSession read_write])))
      | _ \<Rightarrow> [])"

text \<open>
  The attempt of a server raises an exception that is not an instance of
  \<^verbatim>\<open>Exception\<close>.
\<close>

definition escapes :: "env \<Rightarrow> path \<Rightarrow> string \<times> json \<Rightarrow> bool" where
  "escapes e start_path entry =
     (case snd entry of
        JObj cfg \<Rightarrow>
          (case server_attempt e start_path cfg of
             Inl (NonException err) \<Rightarrow> True
           | _ \<Rightarrow> False)
      | _ \<Rightarrow> False)"

text \<open>
  The servers a discovery pass gets to: all of them, or those up to and including the
  first one whose attempt raises an exception that is not an instance of
  \<^verbatim>\<open>Exception\<close>.
\<close>

fun attempted :: "env \<Rightarrow> path \<Rightarrow> (string \<times> json) list \<Rightarrow> (string \<times> json) list" where
  "attempted e start_path [] = []"
| "attempted e start_path (entry # rest) =
     (if escapes e start_path entry then [entry] else entry # attempted e start_path rest)"

subsection \<open>Concrete environments\<close>

text \<open>
  An environment with the configuration file \<^verbatim>\<open>/proj/.mcp.json\<close>, whose content
  parses to the document \<open>doc\<close>; \<open>enter\<close> and \<open>listing\<close> are the SDK's behaviour,
  and leaving a context manager neither raises nor swallows anything.
  A call of a remote tool answers with one text block that holds the name called and
  the names of the arguments it received.
\<close>

definition text_block :: "string \<Rightarrow> block" where
  "text_block s = \<lparr> b_type = Some ''text'', b_text = Some s,
                    b_model_dump_json = Some ''{}'', b_repr = ''TextContent'' \<rparr>"

definition demo_env ::
  "json \<Rightarrow> (cm \<Rightarrow> raised + handle) \<Rightarrow> (handle \<Rightarrow> raised + mcp_tool list) \<Rightarrow> env" where
  "demo_env doc enter listing =
     \<lparr> str_of = (\<lambda>v. ''?''),
       json_dumps = (\<lambda>v. ''{}''),
       resolve = (\<lambda>p. p),
       path_exists = (\<lambda>p. p = [''proj'', ''.mcp.json'']),
       read_text = (\<lambda>p. Inr []),
       json_loads = (\<lambda>s. Inr doc),
       aenter = enter,
       aexit = (\<lambda>c pending. pending),
       initialize = (\<lambda>s. None),
       list_tools = listing,
       call_tool = (\<lambda>s n a. Inr \<lparr> isError = False,
                                   content = Some [text_block
                                     ((case n of JStr x \<Rightarrow> x | _ \<Rightarrow> []) @ ''('' @
                                      join '','' (map fst a) @ '')'')],
                                   structuredContent = None \<rparr>) \<rparr>"

text \<open>
  An SDK in which a stdio transport whose command is \<^verbatim>\<open>bad\<close> cannot be spawned and
  everything else opens: a transport yields the handle 1, 2 or 3 by its kind, a session
  the handle of its transport.
\<close>

definition demo_enter :: "cm \<Rightarrow> raised + handle" where
  "demo_enter c =
     (case c of
        stdio_client p \<Rightarrow>
          if sp_command p = ''bad'' then Inl (Exception (Exn ''FileNotFoundError'' ''bad''))
          else Inr 1
      | sse_client url h \<Rightarrow> Inr 2
      | streamable_http_client url \<Rightarrow> Inr 3
      | ClientSession h \<Rightarrow> Inr h)"

definition capability :: "string \<Rightarrow> mcp_tool" where
  "capability n = \<lparr> mt_name = n, mt_description = Some ''Search something'',
                    mt_title = None, mt_inputSchema = None \<rparr>"

text \<open>The exception that ends the pass early, if any: that of the first such server.\<close>

fun first_escape :: "env \<Rightarrow> path \<Rightarrow> (string \<times> json) list \<Rightarrow> raised option" where
  "first_escape e start_path [] = None"
| "first_escape e start_path (entry # rest) =
     (case snd entry of
        JObj cfg \<Rightarrow>
          (case server_attempt e start_path cfg of
             Inl (NonException err) \<Rightarrow> Some (NonException err)
           | _ \<Rightarrow> first_escape e start_path rest)
      | _ \<Rightarrow> first_escape e start_path rest)"


text \<open>
  The transport kind of a server, as the specification derives it: stdio for a
  command-based server, sse for a url-based one whose type is \<^verbatim>\<open>sse\<close>, http for any
  other url-based one.
\<close>

definition transport_kind :: "cm \<Rightarrow> string" where
  "transport_kind c =
     (case c of
        stdio_client p \<Rightarrow> ''stdio''
      | sse_client url h \<Rightarrow> ''sse''
      | streamable_http_client url \<Rightarrow> ''http''
      | ClientSession h \<Rightarrow> [])"

text \<open>The two kinds the metadata tells apart.\<close>

definition recorded_kind :: "cm \<Rightarrow> string" where
  "recorded_kind c = (case c of stdio_client p \<Rightarrow> ''stdio'' | _ \<Rightarrow> ''http'')"

text \<open>What a tool's metadata records.\<close>

definition tool_server :: "structured_tool \<Rightarrow> string" where
  "tool_server t = (case map_of (st_metadata t) ''mcp_server'' of Some n \<Rightarrow> n | None \<Rightarrow> [])"

definition tool_transport :: "structured_tool \<Rightarrow> string" where
  "tool_transport t =
     (case map_of (st_metadata t) ''mcp_transport'' of Some k \<Rightarrow> k | None \<Rightarrow> [])"

text \<open>The tools of the toolset that is yielded; None when entering raises instead.\<close>

definition yielded_tools :: "aborted + discovery \<Rightarrow> structured_tool list option" where
  "yielded_tools r = (case r of Inl a \<Rightarrow> None | Inr d \<Rightarrow> Some (tools (toolset d)))"

text \<open>No argument list is given: the key is missing, or the list is empty.\<close>

definition no_argument_list :: "json option \<Rightarrow> bool" where
  "no_argument_list raw_args = (raw_args = None \<or> raw_args = Some (JArr []))"

text \<open>
  What the adapter makes of the outcome of \<^verbatim>\<open>call_tool\<close>: it fails with the
  normalized text, or the fixed message when that text is empty, if the error flag is
  set, and returns the normalized text otherwise.
\<close>

definition adapter_outcome :: "env \<Rightarrow> raised + call_tool_result \<Rightarrow> raised + string" where
  "adapter_outcome e r =
     (case r of
        Inl err \<Rightarrow> Inl err
      | Inr result \<Rightarrow>
          if isError result then
            Inl (Exception (Exn ''ToolException''
                   (if format_call_tool_result e result = [] then ''MCP tool call failed''
                    else format_call_tool_result e result)))
          else Inr (format_call_tool_result e result))"

subsection \<open>Concrete configurations\<close>

text \<open>The configuration of the unit test: one stdio server, \<^verbatim>\<open>tavily\<close>.\<close>

definition tavily_doc :: json where
  "tavily_doc =
     JObj [(''mcpServers'', JObj
       [(''tavily'', JObj
          [(''command'', JStr ''npx''),
           (''args'', JArr [JStr ''-y'', JStr ''mcp-remote'', JStr ''https://example.com'']),
           (''env'', JObj [])])])]"

definition tavily_env :: env where
  "tavily_env = demo_env tavily_doc demo_enter (\<lambda>s. Inr [capability ''search''])"

text \<open>Two stdio servers; the one named \<^verbatim>\<open>bad\<close> cannot be spawned.\<close>

definition good_bad_doc :: json where
  "good_bad_doc =
     JObj [(''mcpServers'', JObj
       [(''good'', JObj [(''command'', JStr ''npx'')]),
        (''bad'', JObj [(''command'', JStr ''bad'')])])]"

definition good_bad_env :: env where
  "good_bad_env = demo_env good_bad_doc demo_enter (\<lambda>s. Inr [capability ''search''])"

text \<open>
  Three servers, one of each kind, in the simplified root-map shape; every session lists
  the capability \<^verbatim>\<open>x\<close>.
\<close>

definition kinds_doc :: json where
  "kinds_doc =
     JObj [(''local'', JObj [(''command'', JStr ''npx'')]),
           (''remote'', JObj [(''url'', JStr ''https://example.com/mcp'')]),
           (''events'', JObj [(''url'', JStr ''https://example.com/sse''),
                              (''type'', JStr ''sse'')])]"

definition kinds_env :: env where
  "kinds_env = demo_env kinds_doc demo_enter (\<lambda>s. Inr [capability ''x''])"

text \<open>One server whose transport is server-sent events.\<close>

definition sse_cfg :: dict where
  "sse_cfg = [(''url'', JStr ''https://example.com/sse''), (''type'', JStr ''sse'')]"

definition sse_env :: env where
  "sse_env = demo_env (JObj [(''servers'', JObj [(''events'', JObj sse_cfg)])]) demo_enter
               (\<lambda>s. Inr [capability ''x''])"

text \<open>
  Two servers, \<^verbatim>\<open>a\<close> and \<^verbatim>\<open>a_\<close>; the first lists the capability \<^verbatim>\<open>_b\<close>, the
  second the capability \<^verbatim>\<open>b\<close>. The session handle is the length of the command.
\<close>

definition clash_env :: env where
  "clash_env =
     demo_env
       (JObj [(''mcpServers'', JObj
          [(''a'', JObj [(''command'', JStr ''x'')]),
           (''a_'', JObj [(''command'', JStr ''yy'')])])])
       (\<lambda>c. case c of stdio_client p \<Rightarrow> Inr (length (sp_command p))
                     | ClientSession h \<Rightarrow> Inr h
                     | _ \<Rightarrow> Inr 0)
       (\<lambda>s. if s = 1 then Inr [capability ''_b''] else Inr [capability ''b''])"

text \<open>
  Three stdio servers: \<^verbatim>\<open>first\<close> cannot be spawned, the handshake of \<^verbatim>\<open>second\<close>
  fails after its transport and its session were opened, and \<^verbatim>\<open>third\<close> works.
\<close>

definition partial_env :: env where
  "partial_env =
     (demo_env
        (JObj [(''mcpServers'', JObj
           [(''third'', JObj [(''command'', JStr ''npx'')]),
            (''second'', JObj [(''command'', JStr ''uvx'')]),
            (''first'', JObj [(''command'', JStr ''bad'')])])])
        (\<lambda>c. case c of
                stdio_client p \<Rightarrow>
                  if sp_command p = ''bad''
                  then Inl (Exception (Exn ''FileNotFoundError'' ''bad''))
                  else if sp_command p = ''uvx'' then Inr 7 else Inr 1
              | ClientSession h \<Rightarrow> Inr h
              | _ \<Rightarrow> Inr 0)
        (\<lambda>s. Inr [capability ''search'']))
     \<lparr> initialize :=
         (\<lambda>s. if s = 7 then Some (Exception (Exn ''McpError'' ''Connection closed''))
              else None) \<rparr>"

text \<open>
  Three servers: \<^verbatim>\<open>first\<close> works; \<^verbatim>\<open>second\<close> is a streamable-HTTP server whose
  transport opens and whose session is cancelled while it is entered
  (\<^verbatim>\<open>asyncio.CancelledError\<close>); \<^verbatim>\<open>third\<close> would work.
\<close>

definition cancelled_env :: env where
  "cancelled_env =
     demo_env
       (JObj [(''mcpServers'', JObj
          [(''first'', JObj [(''command'', JStr ''npx'')]),
           (''second'', JObj [(''url'', JStr ''https://unreachable.example'')]),
           (''third'', JObj [(''command'', JStr ''uvx'')])])])
       (\<lambda>c. case c of
               stdio_client p \<Rightarrow> Inr 1
             | streamable_http_client url \<Rightarrow> Inr 3
             | ClientSession h \<Rightarrow>
                 if h = 3 then Inl (NonException (Exn ''CancelledError'' [])) else Inr h
             | _ \<Rightarrow> Inr 0)
       (\<lambda>s. Inr [capability ''search''])"

text \<open>A root map with two metadata keys and one server.\<close>

definition meta_doc :: json where
  "meta_doc =
     JObj [(''$schema'', JStr ''https://example.com/mcp.schema.json''),
           (''version'', JInt 2),
           (''a'', JObj [(''command'', JStr ''x'')])]"


section \<open>Theorems\<close>

subsection \<open>extract_mcp_servers\<close>

lemma has_key_Nil: "\<not> has_key k []"
  by (simp add: has_key_def)

lemma has_key_Cons: "has_key k (kv # cfg) \<longleftrightarrow> k = fst kv \<or> has_key k cfg"
  by (cases kv) (auto simp: has_key_def)

lemma looks_like_server_keys:
  "looks_like_server cfg \<longleftrightarrow>
     has_key ''command'' cfg \<or> has_key ''url'' cfg \<or> has_key ''type'' cfg"
  by (simp add: looks_like_server_def)

lemma looks_like_server_iff:
  "looks_like_server cfg \<longleftrightarrow>
     list_ex (\<lambda>(k, x). k = ''command'' \<or> k = ''url'' \<or> k = ''type'') cfg"
proof (induction cfg)
  case Nil
  show ?case by (simp add: looks_like_server_keys has_key_Nil)
next
  case (Cons kv cfg)
  obtain k v where kv: "kv = (k, v)" by (cases kv)
  from Cons.IH show ?case
    unfolding looks_like_server_keys has_key_Cons kv
    by (simp only: list_ex_Cons_iff fst_conv case_prod_conv) blast
qed

lemma candidate_of_spec:
  "candidate_of d = spec_candidates d"
  by (induction d rule: spec_candidates.induct) (simp_all add: candidate_of_def meta_keys_def)

lemma candidate_checks:
  "(list_all (\<lambda>(k, v). is_dict v) c \<and>
    list_all (\<lambda>(k, v). case v of JObj cfg \<Rightarrow> looks_like_server cfg | _ \<Rightarrow> True)
      (filter (\<lambda>(k, v). is_dict v) c))
   \<longleftrightarrow> list_all (\<lambda>(k, v). candidate_ok v) c"
proof (induction c)
  case Nil
  show ?case by simp
next
  case (Cons kv c)
  obtain k v where kv: "kv = (k, v)" by (cases kv)
  show ?case
    using Cons.IH unfolding kv
    by (cases v) (auto simp: candidate_ok_def looks_like_server_iff)
qed

text \<open>
  C2. For every parsed document, \<open>extract_mcp_servers\<close> returns the mapping under
  \<^verbatim>\<open>mcpServers\<close> when that field holds a mapping; else the mapping under \<^verbatim>\<open>servers\<close>
  when that field holds one; else the top-level entries without the metadata keys
  \<^verbatim>\<open>$schema\<close>, \<^verbatim>\<open>version\<close>, \<^verbatim>\<open>inputs\<close> and \<^verbatim>\<open>env\<close>, when there is at least one,
  every one is a mapping and every one has a \<^verbatim>\<open>command\<close>, \<^verbatim>\<open>url\<close> or \<^verbatim>\<open>type\<close> key;
  and the empty mapping in every other case, a document that is no mapping included.
\<close>

theorem extract_mcp_servers_spec:
  "extract_mcp_servers data = spec_extract data"
proof (cases data)
  case (JObj d)
  show ?thesis
  proof (cases "holds_mapping d ''mcpServers''")
    case True
    then show ?thesis
      unfolding JObj extract_mcp_servers_def spec_extract_def holds_mapping_def mapping_at_def
      by (simp split: option.splits json.splits)
  next
    case no_primary: False
    show ?thesis
    proof (cases "holds_mapping d ''servers''")
      case True
      with no_primary show ?thesis
        unfolding JObj extract_mcp_servers_def spec_extract_def holds_mapping_def mapping_at_def
        by (simp split: option.splits json.splits)
    next
      case False
      have tail: "extract_mcp_servers (JObj d) =
        (if candidate_of d = [] \<or> \<not> list_all (\<lambda>(k, v). is_dict v) (candidate_of d) then []
         else if list_all (\<lambda>(k, v). case v of JObj cfg \<Rightarrow> looks_like_server cfg | _ \<Rightarrow> True)
                   (filter (\<lambda>(k, v). is_dict v) (candidate_of d))
         then candidate_of d else [])"
        using no_primary False
        unfolding extract_mcp_servers_def holds_mapping_def
        by (simp add: Let_def split: option.splits json.splits)
      have spec: "spec_extract (JObj d) =
        (if spec_candidates d \<noteq> [] \<and> list_all (\<lambda>(k, v). candidate_ok v) (spec_candidates d)
         then spec_candidates d else [])"
        using no_primary False unfolding spec_extract_def by simp
      show ?thesis
        unfolding JObj tail spec candidate_of_spec
        using candidate_checks [of "spec_candidates d"] by auto
    qed
  qed
qed (simp_all add: extract_mcp_servers_def spec_extract_def)

subsection \<open>The exit stack\<close>



subsection \<open>The loop over the servers\<close>

lemma connect_server_eq:
  "connect_server e sp n cfg st =
     ((case server_attempt e sp cfg of Inl r \<Rightarrow> Some r | Inr x \<Rightarrow> None),
      st\<lparr> ls_tools := ls_tools st @ server_tools e sp (n, JObj cfg),
          ls_stack := ls_stack st @ server_entered e sp (n, JObj cfg) \<rparr>)"
  by (simp add: connect_server_def server_attempt_def server_tools_def server_entered_def
      enter_async_context_def split: sum.splits option.splits)

lemma server_loop_eq:
  "server_loop e sp srv st =
     (first_escape e sp srv,
      st\<lparr> ls_tools := ls_tools st @ concat (map (server_tools e sp) (attempted e sp srv)),
          ls_errors := ls_errors st @ concat (map (server_errors e sp) (attempted e sp srv)),
          ls_stack := ls_stack st @ concat (map (server_entered e sp) (attempted e sp srv)) \<rparr>)"
proof (induction srv arbitrary: st)
  case Nil
  show ?case by simp
next
  case (Cons entry srv)
  obtain n obj where entry: "entry = (n, obj)" by (cases entry)
  show ?case
  proof (cases obj)
    case (JObj cfg)
    show ?thesis
    proof (cases "server_attempt e sp cfg")
      case (Inl r)
      show ?thesis
      proof (cases r)
        case (Exception err)
        with Inl show ?thesis
          unfolding entry JObj
          by (simp add: Cons.IH connect_server_eq server_errors_def escapes_def)
      next
        case (NonException err)
        with Inl show ?thesis
          unfolding entry JObj
          by (simp add: connect_server_eq server_errors_def escapes_def)
      qed
    next
      case (Inr x)
      then show ?thesis
        unfolding entry JObj
        by (simp add: Cons.IH connect_server_eq server_errors_def escapes_def)
    qed
  qed (simp_all add: entry Cons.IH server_errors_def server_tools_def server_entered_def
        escapes_def)
qed

lemma attempted_subset:
  "set (attempted e sp srv) \<subseteq> set srv"
  by (induction srv) auto

lemma no_escape:
  assumes "\<forall>entry \<in> set srv. \<not> escapes e sp entry"
  shows "attempted e sp srv = srv" and "first_escape e sp srv = None"
  using assms
  by (induction srv)
     (auto simp: escapes_def split: json.splits sum.splits raised.splits)

lemma first_escape_None:
  assumes "first_escape e sp srv = None"
  shows "attempted e sp srv = srv"
  using assms
  by (induction srv)
     (auto simp: escapes_def split: json.splits sum.splits raised.splits)

text \<open>The main path, when no exception leaves the loop.\<close>

lemma open_mcp_toolset_servers:
  assumes "find_mcp_config_path e sp = Some p"
    and "read_config e p = Inr data"
    and "extract_mcp_servers data \<noteq> []"
    and "\<forall>entry \<in> set (sort_key fst (extract_mcp_servers data)). \<not> escapes e sp entry"
  shows "open_mcp_toolset e sp =
     Inr \<lparr> toolset =
           \<lparr> tools = concat (map (server_tools e sp) (sort_key fst (extract_mcp_servers data))),
             config_path = Some p,
             errors = concat (map (server_errors e sp) (sort_key fst (extract_mcp_servers data))) \<rparr>,
         exit_stack = concat (map (server_entered e sp) (sort_key fst (extract_mcp_servers data))) \<rparr>"
  using assms(1-3) no_escape [OF assms(4)]
  by (simp add: open_mcp_toolset_def Let_def server_loop_eq)

text \<open>Every way in which \<open>open_mcp_toolset\<close> yields.\<close>

lemma open_mcp_toolset_yields:
  assumes "open_mcp_toolset e sp = Inr d"
  shows "tools (toolset d) = [] \<or>
     (\<exists>p data. find_mcp_config_path e sp = Some p \<and> read_config e p = Inr data \<and>
        tools (toolset d) =
          concat (map (server_tools e sp) (sort_key fst (extract_mcp_servers data))))"
proof (cases "find_mcp_config_path e sp")
  case None
  with assms show ?thesis by (auto simp: open_mcp_toolset_def)
next
  case (Some p)
  show ?thesis
  proof (cases "read_config e p")
    case (Inl err)
    with Some assms show ?thesis by (auto simp: open_mcp_toolset_def)
  next
    case (Inr data)
    show ?thesis
    proof (cases "extract_mcp_servers data = []")
      case True
      with Some Inr assms show ?thesis by (auto simp: open_mcp_toolset_def)
    next
      case False
      let ?srv = "sort_key fst (extract_mcp_servers data)"
      show ?thesis
      proof (cases "first_escape e sp ?srv")
        case None
        from first_escape_None [OF None] Some Inr False None assms
        have "tools (toolset d) = concat (map (server_tools e sp) ?srv)"
          by (auto simp: open_mcp_toolset_def Let_def server_loop_eq)
        with Some Inr show ?thesis by blast
      next
        case (Some r)
        with \<open>find_mcp_config_path e sp = Some p\<close> Inr False assms show ?thesis
          by (auto simp: open_mcp_toolset_def Let_def server_loop_eq
              split: prod.splits option.splits)
      qed
    qed
  qed
qed

text \<open>Where a tool of the result comes from.\<close>

lemma tool_origin:
  assumes "open_mcp_toolset e sp = Inr d"
    and "t \<in> set (tools (toolset d))"
  obtains p data n cfg session listed c where
    "find_mcp_config_path e sp = Some p" and "read_config e p = Inr data" and
    "(n, JObj cfg) \<in> set (extract_mcp_servers data)" and
    "server_attempt e sp cfg = Inr (session, listed)" and "c \<in> set listed" and
    "t = make_tool n cfg session c"
proof -
  from open_mcp_toolset_yields [OF assms(1)] assms(2) obtain p data where
    p: "find_mcp_config_path e sp = Some p" and data: "read_config e p = Inr data" and
    tl: "tools (toolset d) =
      concat (map (server_tools e sp) (sort_key fst (extract_mcp_servers data)))"
    by auto
  from assms(2) tl obtain entry where
    entry: "entry \<in> set (extract_mcp_servers data)" and t: "t \<in> set (server_tools e sp entry)"
    by auto
  obtain n obj where eq: "entry = (n, obj)" by (cases entry)
  from t obtain cfg where obj: "obj = JObj cfg"
    unfolding eq server_tools_def by (cases obj) simp_all
  from t obtain r where r: "server_attempt e sp cfg = Inr r"
    unfolding eq obj server_tools_def by (cases "server_attempt e sp cfg") simp_all
  from t r obtain c where c: "c \<in> set (snd r)" and t': "t = make_tool n cfg (fst r) c"
    unfolding eq obj server_tools_def by auto
  from r have "server_attempt e sp cfg = Inr (fst r, snd r)" by simp
  with p data entry c t' show ?thesis
    using that [of p data n cfg "fst r" "snd r" c] by (simp add: eq obj)
qed

lemma make_tool_sel [simp]:
  "st_name (make_tool n cfg s c) = n @ ''__'' @ mt_name c"
  "st_mcp_tool_name (make_tool n cfg s c) = mt_name c"
  "st_session (make_tool n cfg s c) = s"
  "tool_server (make_tool n cfg s c) = n"
  "tool_transport (make_tool n cfg s c) = (if has_key ''command'' cfg then ''stdio'' else ''http'')"
  by (simp_all add: make_tool_def tool_server_def tool_transport_def Let_def)


subsection \<open>Evaluating the concrete environments\<close>

lemmas demo_defs =
  demo_env_def demo_enter_def capability_def text_block_def
  tavily_env_def tavily_doc_def good_bad_env_def good_bad_doc_def kinds_env_def kinds_doc_def
  sse_env_def sse_cfg_def clash_env_def partial_env_def cancelled_env_def meta_doc_def

lemmas config_defs =
  find_mcp_config_path_def read_config_def extract_mcp_servers_def candidate_of_def
  meta_keys_def looks_like_server_def has_key_def path_str_def


lemmas transport_defs =
  server_attempt_def server_tools_def server_entered_def transport_cm_def escapes_def
  normalize_stdio_command_def py_str_def isspace_def has_key_def path_str_def

subsection \<open>Claims\<close>

theorem extract_mcp_servers_spec_witness:
  "extract_mcp_servers tavily_doc =
     [(''tavily'', JObj
         [(''command'', JStr ''npx''),
          (''args'', JArr [JStr ''-y'', JStr ''mcp-remote'', JStr ''https://example.com'']),
          (''env'', JObj [])])]
   \<and> extract_mcp_servers (JObj [(''servers'', JObj [(''events'', JObj sse_cfg)])]) =
     [(''events'', JObj sse_cfg)]
   \<and> extract_mcp_servers kinds_doc =
     [(''local'', JObj [(''command'', JStr ''npx'')]),
      (''remote'', JObj [(''url'', JStr ''https://example.com/mcp'')]),
      (''events'', JObj [(''url'', JStr ''https://example.com/sse''), (''type'', JStr ''sse'')])]
   \<and> extract_mcp_servers meta_doc = [(''a'', JObj [(''command'', JStr ''x'')])]
   \<and> extract_mcp_servers
       (JObj [(''inputs'', JArr []), (''env'', JObj [(''K'', JStr ''v'')]),
              (''b'', JObj [(''type'', JStr ''http'')])]) =
     [(''b'', JObj [(''type'', JStr ''http'')])]
   \<and> extract_mcp_servers (JObj [(''version'', JInt 1), (''local'', JObj [(''cmd'', JStr ''npx'')])]) = []
   \<and> extract_mcp_servers (JObj [(''a'', JObj [(''command'', JStr ''x'')]), (''b'', JInt 1)]) = []
   \<and> extract_mcp_servers (JObj [(''version'', JInt 1)]) = []
   \<and> extract_mcp_servers (JArr []) = []"
  using extract_mcp_servers_spec [of tavily_doc]
    extract_mcp_servers_spec [of "JObj [(''servers'', JObj [(''events'', JObj sse_cfg)])]"]
    extract_mcp_servers_spec [of kinds_doc]
    extract_mcp_servers_spec [of meta_doc]
    extract_mcp_servers_spec [of "JObj [(''inputs'', JArr []), (''env'', JObj [(''K'', JStr ''v'')]),
              (''b'', JObj [(''type'', JStr ''http'')])]"]
    extract_mcp_servers_spec [of "JObj [(''version'', JInt 1), (''local'', JObj [(''cmd'', JStr ''npx'')])]"]
    extract_mcp_servers_spec [of "JObj [(''a'', JObj [(''command'', JStr ''x'')]), (''b'', JInt 1)]"]
    extract_mcp_servers_spec [of "JObj [(''version'', JInt 1)]"]
    extract_mcp_servers_spec [of "JArr []"]
  by (simp add: spec_extract_def holds_mapping_def mapping_at_def candidate_ok_def
      tavily_doc_def kinds_doc_def meta_doc_def)









text \<open>
  C7. With no configuration file found, \<open>open_mcp_toolset\<close> yields no tools, no
  configuration path and no errors. With a file that cannot be read or parsed, it yields
  no tools and exactly one error, which describes the failure. With a parsed file from
  which no servers normalize, it yields no tools and exactly one error, which names the
  expected shapes. On these paths nothing is opened, so the exit stack is empty.
\<close>

theorem open_mcp_toolset_without_servers:
  "(find_mcp_config_path e sp = None \<longrightarrow>
      open_mcp_toolset e sp =
        Inr \<lparr> toolset = \<lparr> tools = [], config_path = None, errors = [] \<rparr>, exit_stack = [] \<rparr>)
   \<and> (find_mcp_config_path e sp = Some p \<and> read_config e p = Inl err \<longrightarrow>
      open_mcp_toolset e sp =
        Inr \<lparr> toolset =
              \<lparr> tools = [], config_path = Some p,
                errors = [''Failed to read '' @ path_str p @ '': '' @ exn_type err @ '': '' @
                          exn_msg err] \<rparr>,
            exit_stack = [] \<rparr>)
   \<and> (find_mcp_config_path e sp = Some p \<and> read_config e p = Inr data \<and>
      extract_mcp_servers data = [] \<longrightarrow>
      open_mcp_toolset e sp =
        Inr \<lparr> toolset =
              \<lparr> tools = [], config_path = Some p,
                errors = [''No MCP servers configured in '' @ path_str p @
                          ''. Expected a top-level '' @ apos @ ''mcpServers'' @ apos @ ''/'' @
                          apos @ ''servers'' @ apos @ '' object or a simplified server map.''] \<rparr>,
            exit_stack = [] \<rparr>)"
  by (simp add: open_mcp_toolset_def no_servers_error_def)

theorem open_mcp_toolset_without_servers_witness:
  "open_mcp_toolset (tavily_env \<lparr> path_exists := (\<lambda>p. False) \<rparr>) [''proj''] =
     Inr \<lparr> toolset = \<lparr> tools = [], config_path = None, errors = [] \<rparr>, exit_stack = [] \<rparr>
   \<and> open_mcp_toolset
        (tavily_env \<lparr> json_loads := (\<lambda>s. Inl (Exn ''JSONDecodeError'' ''Expecting value'')) \<rparr>)
        [''proj''] =
     Inr \<lparr> toolset =
           \<lparr> tools = [], config_path = Some [''proj'', ''.mcp.json''],
             errors = [''Failed to read /proj/.mcp.json: JSONDecodeError: Expecting value''] \<rparr>,
         exit_stack = [] \<rparr>
   \<and> open_mcp_toolset
        (tavily_env \<lparr> read_text := (\<lambda>p. Inl (Exn ''PermissionError'' ''denied'')) \<rparr>)
        [''proj''] =
     Inr \<lparr> toolset =
           \<lparr> tools = [], config_path = Some [''proj'', ''.mcp.json''],
             errors = [''Failed to read /proj/.mcp.json: PermissionError: denied''] \<rparr>,
         exit_stack = [] \<rparr>
   \<and> open_mcp_toolset
        (demo_env (JObj [(''version'', JInt 1)]) demo_enter (\<lambda>s. Inr [])) [''proj''] =
     Inr \<lparr> toolset =
           \<lparr> tools = [], config_path = Some [''proj'', ''.mcp.json''],
             errors = [''No MCP servers configured in /proj/.mcp.json. Expected a top-level '' @
                       apos @ ''mcpServers'' @ apos @ ''/'' @ apos @ ''servers'' @ apos @
                       '' object or a simplified server map.''] \<rparr>,
         exit_stack = [] \<rparr>"
proof -
  let ?e1 = "tavily_env \<lparr> path_exists := (\<lambda>p. False) \<rparr>"
  let ?e2 = "tavily_env \<lparr> json_loads := (\<lambda>s. Inl (Exn ''JSONDecodeError'' ''Expecting value'')) \<rparr>"
  let ?e2' = "tavily_env \<lparr> read_text := (\<lambda>p. Inl (Exn ''PermissionError'' ''denied'')) \<rparr>"
  let ?e3 = "demo_env (JObj [(''version'', JInt 1)]) demo_enter (\<lambda>s. Inr [])"
  let ?p = "[''proj'', ''.mcp.json'']"
  have h1: "find_mcp_config_path ?e1 [''proj''] = None"
    by (simp add: demo_defs config_defs parents_def)
  have h2: "find_mcp_config_path ?e2 [''proj''] = Some ?p
      \<and> read_config ?e2 ?p = Inl (Exn ''JSONDecodeError'' ''Expecting value'')"
    by (simp add: demo_defs config_defs)
  have h2': "find_mcp_config_path ?e2' [''proj''] = Some ?p
      \<and> read_config ?e2' ?p = Inl (Exn ''PermissionError'' ''denied'')"
    by (simp add: demo_defs config_defs)
  have h3: "find_mcp_config_path ?e3 [''proj''] = Some ?p
      \<and> read_config ?e3 ?p = Inr (JObj [(''version'', JInt 1)])
      \<and> extract_mcp_servers (JObj [(''version'', JInt 1)]) = []"
    by (simp add: demo_defs config_defs)
  show ?thesis
    using h1 h2 h2' h3
      open_mcp_toolset_without_servers [of ?e1 "[''proj'']"]
      open_mcp_toolset_without_servers [of ?e2 "[''proj'']" ?p "Exn ''JSONDecodeError'' ''Expecting value''"]
      open_mcp_toolset_without_servers [of ?e2' "[''proj'']" ?p "Exn ''PermissionError'' ''denied''"]
      open_mcp_toolset_without_servers [of ?e3 "[''proj'']" ?p _ "JObj [(''version'', JInt 1)]"]
    by (simp add: path_str_def)
qed







lemma collect_parts_eq:
  "collect_parts bs parts = parts @ map block_text bs"
  by (induction bs arbitrary: parts) (auto simp: block_text_def split: option.splits)

text \<open>
  C4. For every call outcome, \<open>format_call_tool_result\<close> returns the JSON text of the
  structured payload (\<^verbatim>\<open>json.dumps\<close> with \<^verbatim>\<open>indent=2, ensure_ascii=False\<close>) when the
  payload is present, whatever the content blocks are; otherwise the texts of the blocks
  that are not empty, joined by newlines, where a block typed \<^verbatim>\<open>text\<close> gives its text
  and any other block its own JSON serialization if it offers one, else its repr; and the
  empty string when there is neither a payload nor a content block.
\<close>

theorem format_call_tool_result_spec:
  "format_call_tool_result e result =
     (case structuredContent result of
        Some structured \<Rightarrow> json_dumps e structured
      | None \<Rightarrow>
         (case content result of
            Some bs \<Rightarrow> join [CHR 0x0A] (filter (\<lambda>p. p \<noteq> []) (map block_text bs))
          | None \<Rightarrow> []))"
  by (simp add: format_call_tool_result_def collect_parts_eq split: option.splits)

theorem format_call_tool_result_spec_witness:
  "format_call_tool_result tavily_env
     \<lparr> isError = False, content = Some [text_block ''ignored''],
       structuredContent = Some (JObj [(''a'', JInt 1)]) \<rparr> =
     json_dumps tavily_env (JObj [(''a'', JInt 1)])
   \<and> format_call_tool_result tavily_env
     \<lparr> isError = False, content = Some [text_block ''ok''], structuredContent = None \<rparr> = ''ok''
   \<and> format_call_tool_result tavily_env
     \<lparr> isError = False,
       content = Some
         [text_block ''a'',
          text_block [],
          \<lparr> b_type = Some ''image'', b_text = None, b_model_dump_json = Some ''{image}'',
            b_repr = ''ImageContent'' \<rparr>,
          \<lparr> b_type = None, b_text = Some ''t'', b_model_dump_json = None, b_repr = ''Blob'' \<rparr>],
       structuredContent = None \<rparr> = ''a'' @ [CHR 0x0A] @ ''{image}'' @ [CHR 0x0A] @ ''Blob''
   \<and> format_call_tool_result tavily_env
     \<lparr> isError = False, content = None, structuredContent = None \<rparr> = []"
  using
    format_call_tool_result_spec [of tavily_env
      "\<lparr> isError = False, content = Some [text_block ''ignored''],
         structuredContent = Some (JObj [(''a'', JInt 1)]) \<rparr>"]
    format_call_tool_result_spec [of tavily_env
      "\<lparr> isError = False, content = Some [text_block ''ok''], structuredContent = None \<rparr>"]
    format_call_tool_result_spec [of tavily_env
      "\<lparr> isError = False,
         content = Some
           [text_block ''a'',
            text_block [],
            \<lparr> b_type = Some ''image'', b_text = None, b_model_dump_json = Some ''{image}'',
              b_repr = ''ImageContent'' \<rparr>,
            \<lparr> b_type = None, b_text = Some ''t'', b_model_dump_json = None, b_repr = ''Blob'' \<rparr>],
         structuredContent = None \<rparr>"]
    format_call_tool_result_spec [of tavily_env
      "\<lparr> isError = False, content = None, structuredContent = None \<rparr>"]
  by (simp add: block_text_def text_block_def)

text \<open>
  The adapter called with named arguments none of which is named like one of its own
  two parameters: they all reach \<^verbatim>\<open>call_tool\<close> of the owning session, under the
  capability's own name.
\<close>

lemma call_mcp_tool_forwards:
  assumes "map_of named_args ''_session'' = None"
    and "map_of named_args ''_mcp_tool_name'' = None"
  shows "call_mcp_tool e tool named_args =
     adapter_outcome e (call_tool e (st_session tool) (JStr (st_mcp_tool_name tool)) named_args)"
proof -
  have "filter (\<lambda>(k, v). k \<noteq> ''_session'' \<and> k \<noteq> ''_mcp_tool_name'') named_args = named_args"
    using assms by (induction named_args) (auto split: if_splits)
  with assms show ?thesis
    by (simp add: call_mcp_tool_def adapter_outcome_def Let_def split: sum.splits)
qed

lemma adapter_outcome_boom:
  "adapter_outcome e
     (Inr \<lparr> isError = True, content = Some [text_block ''boom''], structuredContent = None \<rparr>) =
     Inl (Exception (Exn ''ToolException'' ''boom''))"
  by (simp add: adapter_outcome_def format_call_tool_result_def text_block_def)

text \<open>
  C3. The tool \<^verbatim>\<open>tavily__search\<close> of the unit test's configuration, called with the
  named arguments \<^verbatim>\<open>{"q": "hello"}\<close> and then with
  \<^verbatim>\<open>{"_mcp_tool_name": "delete", "q": "hello"}\<close>; the remote side answers with the name
  it was called under and the names of the arguments it received. The second call
  reaches the remote tool \<^verbatim>\<open>delete\<close>, not \<^verbatim>\<open>search\<close>, and the argument
  \<^verbatim>\<open>_mcp_tool_name\<close> is not forwarded.
\<close>

theorem call_mcp_tool_reserved_argument:
  "map_option
     (map (\<lambda>t. (st_name t, st_mcp_tool_name t,
                 call_mcp_tool tavily_env t [(''q'', JStr ''hello'')],
                 call_mcp_tool tavily_env t
                   [(''_mcp_tool_name'', JStr ''delete''), (''q'', JStr ''hello'')])))
     (yielded_tools (open_mcp_toolset tavily_env [''proj''])) =
   Some [(''tavily__search'', ''search'', Inr ''search(q)'', Inr ''delete(q)'')]"
proof -
  let ?p = "[''proj'', ''.mcp.json'']"
  have h1: "find_mcp_config_path tavily_env [''proj''] = Some ?p"
    by (simp add: demo_defs config_defs)
  have h2: "read_config tavily_env ?p = Inr tavily_doc"
    by (simp add: demo_defs config_defs)
  have h3: "extract_mcp_servers tavily_doc \<noteq> []"
    by (simp add: demo_defs config_defs)
  have h4: "\<forall>entry \<in> set (sort_key fst (extract_mcp_servers tavily_doc)).
      \<not> escapes tavily_env [''proj''] entry"
    by (simp add: demo_defs config_defs transport_defs)
  have tl: "yielded_tools (open_mcp_toolset tavily_env [''proj'']) =
      Some [make_tool ''tavily''
         [(''command'', JStr ''npx''),
          (''args'', JArr [JStr ''-y'', JStr ''mcp-remote'', JStr ''https://example.com'']),
          (''env'', JObj [])] 1 (capability ''search'')]"
    unfolding open_mcp_toolset_servers [OF h1 h2 h3 h4] yielded_tools_def
    by (simp add: demo_defs config_defs transport_defs)
  show ?thesis
    unfolding tl
    by (simp add: call_mcp_tool_def format_call_tool_result_def demo_defs)
qed

text \<open>
  C5, as amended. Every tool of a toolset that is yielded is named
  \<^verbatim>\<open>{server}__{capability}\<close>, after the server and the capability its metadata
  record; and two tools of one toolset that come from different servers and wrap
  capabilities of the same name have different names.
\<close>

theorem tool_names_namespaced:
  assumes "open_mcp_toolset e sp = Inr d"
    and "t1 \<in> set (tools (toolset d))"
    and "t2 \<in> set (tools (toolset d))"
  shows "st_name t1 = tool_server t1 @ ''__'' @ st_mcp_tool_name t1
       \<and> (tool_server t1 \<noteq> tool_server t2 \<and> st_mcp_tool_name t1 = st_mcp_tool_name t2 \<longrightarrow>
            st_name t1 \<noteq> st_name t2)"
proof -
  from assms(1,2) obtain n1 cfg1 s1 c1 where t1: "t1 = make_tool n1 cfg1 s1 c1"
    by (rule tool_origin)
  from assms(1,3) obtain n2 cfg2 s2 c2 where t2: "t2 = make_tool n2 cfg2 s2 c2"
    by (rule tool_origin)
  show ?thesis
    unfolding t1 t2 by simp
qed

lemma kinds_pass:
  "open_mcp_toolset kinds_env [''proj''] =
     Inr \<lparr> toolset =
           \<lparr> tools =
               [make_tool ''events'' sse_cfg 2 (capability ''x''),
                make_tool ''local'' [(''command'', JStr ''npx'')] 1 (capability ''x''),
                make_tool ''remote'' [(''url'', JStr ''https://example.com/mcp'')] 3
                  (capability ''x'')],
             config_path = Some [''proj'', ''.mcp.json''],
             errors = [] \<rparr>,
         exit_stack =
           [sse_client ''https://example.com/sse'' None, ClientSession 2,
            stdio_client \<lparr> sp_command = ''npx'', sp_args = [], sp_env = None,
                            sp_cwd = ''/proj'' \<rparr>,
            ClientSession 1,
            streamable_http_client ''https://example.com/mcp'', ClientSession 3] \<rparr>"
proof -
  let ?p = "[''proj'', ''.mcp.json'']"
  have h1: "find_mcp_config_path kinds_env [''proj''] = Some ?p"
    by (simp add: demo_defs config_defs)
  have h2: "read_config kinds_env ?p = Inr kinds_doc"
    by (simp add: demo_defs config_defs)
  have h3: "extract_mcp_servers kinds_doc \<noteq> []"
    by (simp add: demo_defs config_defs)
  have h4: "\<forall>entry \<in> set (sort_key fst (extract_mcp_servers kinds_doc)).
      \<not> escapes kinds_env [''proj''] entry"
    by (simp add: demo_defs config_defs transport_defs)
  show ?thesis
    unfolding open_mcp_toolset_servers [OF h1 h2 h3 h4]
    by (simp add: demo_defs config_defs transport_defs server_errors_def)
qed

theorem tool_names_namespaced_witness:
  "map_option (map st_name) (yielded_tools (open_mcp_toolset kinds_env [''proj''])) =
     Some [''events__x'', ''local__x'', ''remote__x'']
   \<and> map_option (map tool_server) (yielded_tools (open_mcp_toolset kinds_env [''proj''])) =
     Some [''events'', ''local'', ''remote'']
   \<and> map_option (map st_mcp_tool_name) (yielded_tools (open_mcp_toolset kinds_env [''proj''])) =
     Some [''x'', ''x'', ''x'']"
proof -
  let ?ev = "make_tool ''events'' sse_cfg 2 (capability ''x'')"
  let ?lo = "make_tool ''local'' [(''command'', JStr ''npx'')] 1 (capability ''x'')"
  let ?re = "make_tool ''remote'' [(''url'', JStr ''https://example.com/mcp'')] 3 (capability ''x'')"
  let ?d = "\<lparr> toolset =
           \<lparr> tools = [?ev, ?lo, ?re],
             config_path = Some [''proj'', ''.mcp.json''],
             errors = [] \<rparr>,
         exit_stack =
           [sse_client ''https://example.com/sse'' None, ClientSession 2,
            stdio_client \<lparr> sp_command = ''npx'', sp_args = [], sp_env = None,
                            sp_cwd = ''/proj'' \<rparr>,
            ClientSession 1,
            streamable_http_client ''https://example.com/mcp'', ClientSession 3] \<rparr>"
  have m1: "?ev \<in> set (tools (toolset ?d))" and m2: "?lo \<in> set (tools (toolset ?d))"
    and m3: "?re \<in> set (tools (toolset ?d))"
    by simp_all
  have "st_name ?ev \<noteq> st_name ?lo"
    using tool_names_namespaced [OF kinds_pass m1 m2] by simp
  then show ?thesis
    using tool_names_namespaced [OF kinds_pass m2 m3] tool_names_namespaced [OF kinds_pass m3 m1]
    unfolding kinds_pass yielded_tools_def by (simp add: capability_def)
qed

theorem tool_names_clash:
  "map_option (map (\<lambda>t. (tool_server t, st_mcp_tool_name t, st_name t)))
     (yielded_tools (open_mcp_toolset clash_env [''proj''])) =
   Some [(''a'', ''_b'', ''a___b''), (''a_'', ''b'', ''a___b'')]"
proof -
  let ?p = "[''proj'', ''.mcp.json'']"
  let ?two = "[(''a'', JObj [(''command'', JStr ''x'')]), (''a_'', JObj [(''command'', JStr ''yy'')])]"
  have h1: "find_mcp_config_path clash_env [''proj''] = Some ?p"
    by (simp add: demo_defs config_defs)
  have h2: "\<exists>d. read_config clash_env ?p = Inr d \<and> extract_mcp_servers d \<noteq> [] \<and>
      sort_key fst (extract_mcp_servers d) = ?two"
    by (simp add: demo_defs config_defs)
  then obtain d where d: "read_config clash_env ?p = Inr d" "extract_mcp_servers d \<noteq> []"
    "sort_key fst (extract_mcp_servers d) = ?two"
    by blast
  have h4: "\<forall>entry \<in> set (sort_key fst (extract_mcp_servers d)).
      \<not> escapes clash_env [''proj''] entry"
    unfolding d(3) by (simp add: demo_defs transport_defs)
  have tl: "yielded_tools (open_mcp_toolset clash_env [''proj'']) =
      Some [make_tool ''a'' [(''command'', JStr ''x'')] 1 (capability ''_b''),
            make_tool ''a_'' [(''command'', JStr ''yy'')] 2 (capability ''b'')]"
    unfolding open_mcp_toolset_servers [OF h1 d(1) d(2) h4] d(3) yielded_tools_def
    by (simp add: demo_defs transport_defs numeral_2_eq_2)
  show ?thesis
    unfolding tl by (simp add: capability_def)
qed

lemma server_attempt_transport:
  assumes "server_attempt e sp cfg = Inr r"
  obtains c where "transport_cm e sp cfg = Inr c"
  using assms by (cases "transport_cm e sp cfg") (simp_all add: server_attempt_def)

lemma stdio_cm_kind:
  assumes "(case normalize_stdio_command e rc ra of
              Inl err \<Rightarrow> Inl err
            | Inr (command, args) \<Rightarrow> if command = [] then Inl x else Inr (stdio_client (f command args)))
           = Inr c"
  shows "recorded_kind c = ''stdio''"
  using assms
  by (cases "normalize_stdio_command e rc ra")
     (auto simp: recorded_kind_def split: prod.splits if_splits)

lemma transport_cm_kind:
  assumes "transport_cm e sp cfg = Inr c"
  shows "recorded_kind c = (if has_key ''command'' cfg then ''stdio'' else ''http'')"
proof (cases "has_key ''command'' cfg")
  case True
  with assms show ?thesis
    unfolding transport_cm_def Let_def by (simp add: stdio_cm_kind)
next
  case False
  with assms show ?thesis
    unfolding transport_cm_def Let_def
    by (auto simp: recorded_kind_def split: if_splits option.splits json.splits)
qed

text \<open>
  C9, as amended. For every tool of a toolset that is yielded, the metadata record as the
  transport \<^verbatim>\<open>stdio\<close> when the transport of its server is the stdio one (the server
  has a \<^verbatim>\<open>command\<close>), and \<^verbatim>\<open>http\<close> when it is the streamable-HTTP one or the
  server-sent-events one (a url-based server, whatever its type).
\<close>

theorem tool_metadata_transport:
  assumes "open_mcp_toolset e sp = Inr d"
    and "t \<in> set (tools (toolset d))"
  shows "\<exists>p data cfg c.
           find_mcp_config_path e sp = Some p \<and> read_config e p = Inr data \<and>
           (tool_server t, JObj cfg) \<in> set (extract_mcp_servers data) \<and>
           transport_cm e sp cfg = Inr c \<and>
           tool_transport t = (case c of stdio_client params \<Rightarrow> ''stdio'' | _ \<Rightarrow> ''http'')"
proof -
  from assms obtain p data n cfg session listed cap where
    o: "find_mcp_config_path e sp = Some p" "read_config e p = Inr data"
       "(n, JObj cfg) \<in> set (extract_mcp_servers data)"
       "server_attempt e sp cfg = Inr (session, listed)"
       "t = make_tool n cfg session cap"
    by (rule tool_origin)
  from o(4) obtain c where c: "transport_cm e sp cfg = Inr c"
    by (rule server_attempt_transport)
  have "tool_transport t = recorded_kind c"
    using transport_cm_kind [OF c] by (simp add: o(5))
  with o c show ?thesis
    by (auto simp: recorded_kind_def)
qed

theorem tool_metadata_transport_witness:
  "map_option (map (\<lambda>t. (tool_server t, tool_transport t)))
     (yielded_tools (open_mcp_toolset kinds_env [''proj''])) =
   Some [(''events'', ''http''), (''local'', ''stdio''), (''remote'', ''http'')]"
proof -
  let ?ev = "make_tool ''events'' sse_cfg 2 (capability ''x'')"
  let ?lo = "make_tool ''local'' [(''command'', JStr ''npx'')] 1 (capability ''x'')"
  let ?re = "make_tool ''remote'' [(''url'', JStr ''https://example.com/mcp'')] 3 (capability ''x'')"
  let ?d = "\<lparr> toolset =
           \<lparr> tools = [?ev, ?lo, ?re],
             config_path = Some [''proj'', ''.mcp.json''],
             errors = [] \<rparr>,
         exit_stack =
           [sse_client ''https://example.com/sse'' None, ClientSession 2,
            stdio_client \<lparr> sp_command = ''npx'', sp_args = [], sp_env = None,
                            sp_cwd = ''/proj'' \<rparr>,
            ClientSession 1,
            streamable_http_client ''https://example.com/mcp'', ClientSession 3] \<rparr>"
  have m: "?lo \<in> set (tools (toolset ?d))"
    by simp
  show ?thesis
    using tool_metadata_transport [OF kinds_pass m]
    unfolding kinds_pass yielded_tools_def by (simp add: has_key_def sse_cfg_def)
qed

theorem sse_transport_recorded_as_http:
  "transport_cm sse_env [''proj''] sse_cfg = Inr (sse_client ''https://example.com/sse'' None)
   \<and> transport_kind (sse_client ''https://example.com/sse'' None) = ''sse''
   \<and> map_sum ab_raised exit_stack (open_mcp_toolset sse_env [''proj'']) =
       Inr [sse_client ''https://example.com/sse'' None, ClientSession 2]
   \<and> map_option (map (\<lambda>t. (tool_server t, tool_transport t)))
       (yielded_tools (open_mcp_toolset sse_env [''proj''])) = Some [(''events'', ''http'')]"
proof -
  let ?p = "[''proj'', ''.mcp.json'']"
  have h1: "find_mcp_config_path sse_env [''proj''] = Some ?p"
    by (simp add: demo_defs config_defs)
  have h2: "\<exists>d. read_config sse_env ?p = Inr d \<and> extract_mcp_servers d \<noteq> [] \<and>
      sort_key fst (extract_mcp_servers d) = [(''events'', JObj sse_cfg)]"
    by (simp add: demo_defs config_defs)
  then obtain d where d: "read_config sse_env ?p = Inr d" "extract_mcp_servers d \<noteq> []"
    "sort_key fst (extract_mcp_servers d) = [(''events'', JObj sse_cfg)]"
    by blast
  have c: "transport_cm sse_env [''proj''] sse_cfg =
      Inr (sse_client ''https://example.com/sse'' None)"
    by (simp add: transport_cm_def has_key_def sse_cfg_def)
  have a: "server_attempt sse_env [''proj''] sse_cfg = Inr (2, [capability ''x''])"
    unfolding server_attempt_def c by (simp add: demo_defs)
  have en: "server_entered sse_env [''proj''] (''events'', JObj sse_cfg) =
      [sse_client ''https://example.com/sse'' None, ClientSession 2]"
    unfolding server_entered_def using c by (simp add: sse_env_def demo_env_def demo_enter_def)
  have h4: "\<forall>entry \<in> set (sort_key fst (extract_mcp_servers d)).
      \<not> escapes sse_env [''proj''] entry"
    unfolding d(3) using a by (simp add: escapes_def)
  show ?thesis
    unfolding open_mcp_toolset_servers [OF h1 d(1) d(2) h4] d(3) yielded_tools_def
    using c a en
    by (simp add: server_tools_def transport_kind_def has_key_def sse_cfg_def)
qed

text \<open>
  C10. A url-based server definition (no \<^verbatim>\<open>command\<close>, a \<^verbatim>\<open>url\<close>) whose type is not
  \<^verbatim>\<open>sse\<close>, and a second definition that differs from it in the \<^verbatim>\<open>headers\<close> field
  only: the transport's context manager is built with the same parameters for both, and
  with a usable url it is \<^verbatim>\<open>streamable_http_client(url)\<close>, which takes no headers.
\<close>

theorem streamable_http_ignores_headers:
  assumes "\<not> has_key ''command'' cfg1"
    and "has_key ''url'' cfg1"
    and "map_of cfg1 ''type'' \<noteq> Some (JStr ''sse'')"
    and "\<forall>k. k \<noteq> ''headers'' \<longrightarrow> map_of cfg2 k = map_of cfg1 k"
  shows "transport_cm e sp cfg2 = transport_cm e sp cfg1
       \<and> (\<forall>url. map_of cfg1 ''url'' = Some (JStr url) \<and> url \<noteq> [] \<longrightarrow>
            transport_cm e sp cfg1 = Inr (streamable_http_client url))"
proof -
  have same: "map_of cfg2 ''command'' = map_of cfg1 ''command''"
    "map_of cfg2 ''url'' = map_of cfg1 ''url''"
    "map_of cfg2 ''type'' = map_of cfg1 ''type''"
    using assms(4) by simp_all
  have one: "transport_cm e sp cfg1 =
      (case map_of cfg1 ''url'' of
         Some (JStr url) \<Rightarrow>
           if url = [] then Inl (Exn ''ValueError''
                (''Missing '' @ apos @ ''url'' @ apos @ '' for HTTP/SSE MCP server''))
           else Inr (streamable_http_client url)
       | _ \<Rightarrow> Inl (Exn ''ValueError''
                (''Missing '' @ apos @ ''url'' @ apos @ '' for HTTP/SSE MCP server'')))"
    using assms(1-3)
    by (simp add: transport_cm_def Let_def split: option.splits json.splits)
  have two: "transport_cm e sp cfg2 =
      (case map_of cfg1 ''url'' of
         Some (JStr url) \<Rightarrow>
           if url = [] then Inl (Exn ''ValueError''
                (''Missing '' @ apos @ ''url'' @ apos @ '' for HTTP/SSE MCP server''))
           else Inr (streamable_http_client url)
       | _ \<Rightarrow> Inl (Exn ''ValueError''
                (''Missing '' @ apos @ ''url'' @ apos @ '' for HTTP/SSE MCP server'')))"
    using assms(1-3) same
    by (simp add: transport_cm_def Let_def has_key_def split: option.splits json.splits)
  show ?thesis
    unfolding one two by simp
qed

text \<open>The server-sent-events binding is the one that is given the headers.\<close>

lemma sse_client_gets_headers:
  assumes "\<not> has_key ''command'' cfg"
    and "map_of cfg ''url'' = Some (JStr url)" and "url \<noteq> []"
    and "map_of cfg ''type'' = Some (JStr ''sse'')"
    and "map_of cfg ''headers'' = Some (JObj headers)" and "headers \<noteq> []"
  shows "transport_cm e sp cfg = Inr (sse_client url (Some headers))"
  using assms by (simp add: transport_cm_def Let_def has_key_def)

theorem streamable_http_ignores_headers_witness:
  "transport_cm tavily_env [''proj'']
     [(''url'', JStr ''https://example.com/mcp''),
      (''headers'', JObj [(''Authorization'', JStr ''Bearer secret'')])] =
     Inr (streamable_http_client ''https://example.com/mcp'')
   \<and> transport_cm tavily_env [''proj''] [(''url'', JStr ''https://example.com/mcp'')] =
     Inr (streamable_http_client ''https://example.com/mcp'')"
proof -
  let ?cfg1 = "[(''url'', JStr ''https://example.com/mcp''),
      (''headers'', JObj [(''Authorization'', JStr ''Bearer secret'')])]"
  let ?cfg2 = "[(''url'', JStr ''https://example.com/mcp'')]"
  have h1: "\<not> has_key ''command'' ?cfg1" and h2: "has_key ''url'' ?cfg1"
    and h3: "map_of ?cfg1 ''type'' \<noteq> Some (JStr ''sse'')"
    by (simp_all add: has_key_def)
  have h4: "\<forall>k. k \<noteq> ''headers'' \<longrightarrow> map_of ?cfg2 k = map_of ?cfg1 k"
    by simp
  show ?thesis
    using streamable_http_ignores_headers [OF h1 h2 h3 h4, of tavily_env "[''proj'']"]
    by simp
qed

text \<open>
  C6, as amended. \<open>normalize_stdio_command\<close> returns the command string and the
  argument list of strings as they are when the list is not empty. When no argument list
  is given and the command contains whitespace, it shell-lexes the command: if that gives
  at least one token, the first is the executable and the others are the arguments; if
  it gives no token (the command is blank), the command is returned as it is, with no
  arguments; if the lexing fails, the failure is raised. The command
  \<^verbatim>\<open>npx -y mcp-remote https://example.com\<close> with no argument list gives \<^verbatim>\<open>npx\<close> and
  the three arguments.
\<close>

theorem normalize_stdio_command_cases:
  "(args \<noteq> [] \<longrightarrow>
      normalize_stdio_command e (Some (JStr command)) (Some (JArr (map JStr args))) =
        Inr (command, args))
   \<and> (no_argument_list raw_args \<and> list_ex isspace command \<and>
      shlex_split command = Inr (x # xs) \<longrightarrow>
      normalize_stdio_command e (Some (JStr command)) raw_args = Inr (x, xs))
   \<and> (no_argument_list raw_args \<and> list_ex isspace command \<and> shlex_split command = Inr [] \<longrightarrow>
      normalize_stdio_command e (Some (JStr command)) raw_args = Inr (command, []))
   \<and> (no_argument_list raw_args \<and> list_ex isspace command \<and> shlex_split command = Inl err \<longrightarrow>
      normalize_stdio_command e (Some (JStr command)) raw_args = Inl err)
   \<and> normalize_stdio_command e (Some (JStr ''npx -y mcp-remote https://example.com'')) None =
        Inr (''npx'', [''-y'', ''mcp-remote'', ''https://example.com''])"
proof -
  have strs: "map (\<lambda>x. py_str e (JStr x)) args = args"
    by (induction args) (simp_all add: py_str_def)
  have given: "args \<noteq> [] \<Longrightarrow>
      normalize_stdio_command e (Some (JStr command)) (Some (JArr (map JStr args))) =
        Inr (command, args)"
    using strs by (simp add: normalize_stdio_command_def Let_def o_def)
  have lexed: "normalize_stdio_command e (Some (JStr cmd)) ra =
      (case shlex_split cmd of
         Inl err \<Rightarrow> Inl err
       | Inr [] \<Rightarrow> Inr (cmd, [])
       | Inr (y # ys) \<Rightarrow> Inr (y, ys))"
    if "no_argument_list ra" and "list_ex isspace cmd" for ra cmd
  proof -
    from that(2) have "cmd \<noteq> []" by auto
    with that show ?thesis
      by (auto simp: normalize_stdio_command_def no_argument_list_def Let_def
          split: sum.splits list.splits)
  qed
  have toks: "shlex_split ''npx -y mcp-remote https://example.com'' =
      Inr [''npx'', ''-y'', ''mcp-remote'', ''https://example.com'']"
    by (simp add: shlex_split_def lex_whitespace_def lex_quotes_def lex_escape_def emit_def)
  have example: "normalize_stdio_command e
      (Some (JStr ''npx -y mcp-remote https://example.com'')) None =
        Inr (''npx'', [''-y'', ''mcp-remote'', ''https://example.com''])"
    using lexed [of None "''npx -y mcp-remote https://example.com''"] toks
    by (simp add: no_argument_list_def isspace_def)
  show ?thesis
    using given lexed example by simp
qed

theorem normalize_stdio_command_cases_witness:
  "normalize_stdio_command tavily_env (Some (JStr ''npx''))
     (Some (JArr [JStr ''-y'', JStr ''mcp-remote'', JStr ''https://example.com''])) =
     Inr (''npx'', [''-y'', ''mcp-remote'', ''https://example.com''])
   \<and> normalize_stdio_command tavily_env (Some (JStr ''uvx mcp-server-fetch'')) (Some (JArr [])) =
     Inr (''uvx'', [''mcp-server-fetch''])
   \<and> normalize_stdio_command tavily_env (Some (JStr '' '')) None = Inr ('' '', [])
   \<and> normalize_stdio_command tavily_env (Some (JStr (''sh -c '' @ [CHR 0x22] @ ''x''))) None =
     Inl (Exn ''ValueError'' ''No closing quotation'')"
proof -
  have a: "[''-y'', ''mcp-remote'', ''https://example.com''] \<noteq> ([] :: string list)"
    by simp
  have b: "no_argument_list (Some (JArr [])) \<and> list_ex isspace ''uvx mcp-server-fetch'' \<and>
      shlex_split ''uvx mcp-server-fetch'' = Inr [''uvx'', ''mcp-server-fetch'']"
    by (simp add: no_argument_list_def isspace_def shlex_split_def lex_whitespace_def
        lex_quotes_def lex_escape_def emit_def)
  have c: "no_argument_list None \<and> list_ex isspace '' '' \<and> shlex_split '' '' = Inr []"
    by (simp add: no_argument_list_def isspace_def shlex_split_def lex_whitespace_def)
  have d: "no_argument_list None \<and> list_ex isspace (''sh -c '' @ [CHR 0x22] @ ''x'') \<and>
      shlex_split (''sh -c '' @ [CHR 0x22] @ ''x'') =
        Inl (Exn ''ValueError'' ''No closing quotation'')"
    by (simp add: no_argument_list_def isspace_def shlex_split_def lex_whitespace_def
        lex_quotes_def lex_escape_def lex_escapedquotes_def emit_def)
  show ?thesis
    using a b c d
      normalize_stdio_command_cases [of "[''-y'', ''mcp-remote'', ''https://example.com'']"
        tavily_env "''npx''"]
      normalize_stdio_command_cases [of _ tavily_env "''uvx mcp-server-fetch''"
        "Some (JArr [])" "''uvx''" "[''mcp-server-fetch'']"]
      normalize_stdio_command_cases [of _ tavily_env "'' ''" None]
      normalize_stdio_command_cases [of _ tavily_env "''sh -c '' @ [CHR 0x22] @ ''x''" None _ _
        "Exn ''ValueError'' ''No closing quotation''"]
    by simp
qed

theorem normalize_stdio_command_blank:
  "list_ex isspace '' ''
   \<and> shlex_split '' '' = Inr []
   \<and> normalize_stdio_command tavily_env (Some (JStr '' '')) None = Inr ('' '', [])
   \<and> list_ex isspace (''sh -c '' @ [CHR 0x22] @ ''x'')
   \<and> shlex_split (''sh -c '' @ [CHR 0x22] @ ''x'') =
       Inl (Exn ''ValueError'' ''No closing quotation'')
   \<and> normalize_stdio_command tavily_env (Some (JStr (''sh -c '' @ [CHR 0x22] @ ''x''))) None =
       Inl (Exn ''ValueError'' ''No closing quotation'')"
  by (simp add: normalize_stdio_command_def isspace_def shlex_split_def lex_whitespace_def
      lex_quotes_def lex_escape_def lex_escapedquotes_def emit_def)


end
